theory Spec2Isabelle
  imports Complex_Main "HOL-Library.Product_Lexorder"
begin

section \<open>The relational store\<close>

text \<open>
  The backend keeps its state in one SQLite file. The three tables that the cache, the
  grading and the recommendation statements touch are modelled as lists of rows in
  insertion order, with the columns of \<^verbatim>\<open>database.init_db\<close>. The
  \<^verbatim>\<open>AUTOINCREMENT\<close> keys of the two tables written here are drawn from the
  counters that SQLite keeps in \<^verbatim>\<open>sqlite_sequence\<close>. A \<^verbatim>\<open>TEXT\<close> column is
  a \<open>string\<close>, a nullable one a \<open>string option\<close>. Integers bound to a statement from a
  request (lesson ids) are taken to be SQLite integers; the one integer that the code
  builds from free text, the grader's score, is checked against the 64-bit range where it
  is bound.
\<close>

record lesson_row =
  l_id :: int
  lesson_title :: string
  course_id :: int
  original_text :: string

record content_row =
  c_id :: int
  c_lesson_id :: int
  c_style :: string
  c_content_type :: string
  c_data :: string
  c_quiz_data :: "string option"

record dialogue_row =
  d_id :: int
  d_lesson_id :: int
  d_session_id :: string
  d_style :: string
  conversation_history :: string
  understanding_score :: int

record database =
  lessons :: "lesson_row list"
  generated_content :: "content_row list"
  generated_content_seq :: int
  socratic_dialogues :: "dialogue_row list"
  socratic_dialogues_seq :: int

text \<open>The exceptions that the modelled statements can raise or catch.\<close>

datatype py_exn =
    IntegrityError
  | JSONDecodeError
  | ValueError
  | AttributeError
  | OverflowError
  | HTTPException nat string
  | APIError string

subsection \<open>Deleting a lesson\<close>

text \<open>
  \<^verbatim>\<open>DELETE FROM lessons WHERE id = ?\<close>. The connection never switches
  \<^verbatim>\<open>PRAGMA foreign_keys\<close> on, so the reference from \<^verbatim>\<open>socratic_dialogues\<close>
  is not enforced and the statement touches the \<^verbatim>\<open>lessons\<close> table only.
\<close>

definition delete_lesson :: "database \<Rightarrow> int \<Rightarrow> database" where
  "delete_lesson db lesson_id =
     db\<lparr>lessons := filter (\<lambda>l. l_id l \<noteq> lesson_id) (lessons db)\<rparr>"

section \<open>Properties\<close>

text \<open>
  C9. Deleting a lesson removes the lesson rows with that id and nothing else: every
  cached-content row and every dialogue row, those keyed by the deleted lesson included,
  is still there afterwards, and so are all other lessons.
\<close>

theorem delete_lesson_no_cascade:
  "generated_content (delete_lesson db lesson_id) = generated_content db \<and>
   socratic_dialogues (delete_lesson db lesson_id) = socratic_dialogues db \<and>
   filter (\<lambda>c. c_lesson_id c = lesson_id) (generated_content (delete_lesson db lesson_id))
     = filter (\<lambda>c. c_lesson_id c = lesson_id) (generated_content db) \<and>
   filter (\<lambda>d. d_lesson_id d = lesson_id) (socratic_dialogues (delete_lesson db lesson_id))
     = filter (\<lambda>d. d_lesson_id d = lesson_id) (socratic_dialogues db) \<and>
   set (lessons (delete_lesson db lesson_id)) = {l \<in> set (lessons db). l_id l \<noteq> lesson_id}"
  by (simp add: delete_lesson_def)

end
